theory Spec2Isabelle
  imports Main
begin

section \<open>Data model of \<open>app.py\<close>\<close>

text \<open>
  Python strings are modelled as \<open>string\<close>; a character stands for a code point below 256.
  A conversation turn is the dict appended by \<open>update_context\<close>; the timestamp is the
  instant of the call (the source stores its ISO rendering). The assistant text is the
  \<open>content\<close> of the reply as it came, which may be Python's \<open>None\<close>.
\<close>

record turn =
  timestamp :: nat
  user :: string
  assistant :: "string option"

text \<open>
  The context dict \<open>{"messages": ..., "language": ..., "business_context": {}}\<close>.
  The language is read with \<open>context.get("language")\<close>, so a missing or null entry is
  \<open>None\<close>.
\<close>

record ctx =
  messages :: "turn list"
  language :: "string option"
  business_context :: "(string \<times> string) list"

text \<open>
  An entry of the message list sent to the chat completion endpoint; the content of an
  assistant entry is whatever the stored turn holds.
\<close>

record chat_message =
  role :: string
  content :: "string option"

datatype error = StorageError | ModelError

text \<open>
  The world outside the process. \<open>kv\<close> is the Redis keyspace: each key holds a value and
  the instant at which it expires (the JSON text written by \<open>json.dumps\<close> and read back
  by \<open>json.loads\<close> is kept as the context it encodes). \<open>faults\<close> is the schedule of the
  storage calls to come: the head says whether the next call raises, and an exhausted
  schedule means no more faults. \<open>detect_log\<close> and \<open>model_log\<close> record, oldest first,
  what was sent to the language detection call and to the reply call.
\<close>

record world =
  kv :: "string \<rightharpoonup> (ctx \<times> nat)"
  faults :: "bool list"
  detect_log :: "string list"
  model_log :: "chat_message list list"

text \<open>
  What the reply call does: it raises (also when the response has no \<open>choices[0]\<close>), or it
  answers with \<open>choices[0].message.content\<close>, which is a text or \<open>None\<close>.
\<close>

datatype reply = Raises | Content "string option"

text \<open>
  The two remote capabilities. For detection \<open>None\<close> stands for every way of reaching the
  handler of \<open>detect_language\<close>: the call raises, or the content is \<open>None\<close> and
  \<open>.strip()\<close> raises on it.
\<close>

record caps =
  detect_api :: "string \<Rightarrow> string option"
  model_api :: "chat_message list \<Rightarrow> reply"

section \<open>Constants\<close>

definition LANGUAGE_MAP :: "(string \<times> string) list" where
  "LANGUAGE_MAP =
     [(''en'', ''English''), (''ar'', ''Arabic''), (''fr'', ''French''),
      (''sw'', ''Swahili''), (''ha'', ''Hausa''), (''yo'', ''Yoruba''),
      (''am'', ''Amharic''), (''zu'', ''Zulu''), (''pt'', ''Portuguese'')]"

definition context_ttl :: nat where
  "context_ttl = 3600"

definition apology :: string where
  "apology = ''Sorry, I'' @ [CHR 0x27] @ ''m having trouble responding. Please try again later.''"

section \<open>Python helpers\<close>

text \<open>The slice \<open>xs[-n:]\<close> for a positive \<open>n\<close>.\<close>

definition last_n :: "nat \<Rightarrow> 'a list \<Rightarrow> 'a list" where
  "last_n n xs = drop (length xs - n) xs"

text \<open>Truth value of an optional string: \<open>None\<close> and the empty string are false.\<close>

fun truthy :: "string option \<Rightarrow> bool" where
  "truthy None = False"
| "truthy (Some s) = (s \<noteq> [])"

section \<open>Storage calls\<close>

definition next_fault :: "world \<Rightarrow> bool \<times> world" where
  "next_fault w =
     (case faults w of
        [] \<Rightarrow> (False, w)
      | f # fs \<Rightarrow> (f, w\<lparr>faults := fs\<rparr>))"

text \<open>\<open>redis.get(key)\<close> at instant \<open>now\<close>: an expired key reads as absent.\<close>

definition redis_get :: "string \<Rightarrow> nat \<Rightarrow> world \<Rightarrow> (error + ctx option) \<times> world" where
  "redis_get key now w =
     (case next_fault w of
        (True, w') \<Rightarrow> (Inl StorageError, w')
      | (False, w') \<Rightarrow>
          (case kv w' key of
             None \<Rightarrow> (Inr None, w')
           | Some (v, expiry) \<Rightarrow> (if now < expiry then (Inr (Some v), w') else (Inr None, w'))))"

text \<open>\<open>redis.setex(key, ttl, value)\<close> at instant \<open>now\<close>.\<close>

definition redis_setex :: "string \<Rightarrow> nat \<Rightarrow> ctx \<Rightarrow> nat \<Rightarrow> world \<Rightarrow> (error + unit) \<times> world" where
  "redis_setex key ttl v now w =
     (case next_fault w of
        (True, w') \<Rightarrow> (Inl StorageError, w')
      | (False, w') \<Rightarrow> (Inr (), w'\<lparr>kv := (kv w')(key \<mapsto> (v, now + ttl))\<rparr>))"

section \<open>ConversationManager\<close>

definition context_key :: "string \<Rightarrow> string" where
  "context_key phone_number = ''context:'' @ phone_number"

definition default_context :: ctx where
  "default_context = \<lparr>messages = [], language = Some ''en'', business_context = []\<rparr>"

definition get_context :: "string \<Rightarrow> nat \<Rightarrow> world \<Rightarrow> (error + ctx) \<times> world" where
  "get_context phone_number now w =
     (case redis_get (context_key phone_number) now w of
        (Inl e, w') \<Rightarrow> (Inl e, w')
      | (Inr (Some c), w') \<Rightarrow> (Inr c, w')
      | (Inr None, w') \<Rightarrow> (Inr default_context, w'))"

definition update_context ::
    "string \<Rightarrow> string \<Rightarrow> string option \<Rightarrow> string option \<Rightarrow> nat \<Rightarrow> world \<Rightarrow> (error + unit) \<times> world" where
  "update_context phone_number message response lang now w =
     (case get_context phone_number now w of
        (Inl e, w') \<Rightarrow> (Inl e, w')
      | (Inr c, w') \<Rightarrow>
          (let c1 = c\<lparr>messages := messages c @
                       [\<lparr>timestamp = now, user = message, assistant = response\<rparr>]\<rparr>;
               c2 = c1\<lparr>messages := last_n 10 (messages c1)\<rparr>;
               c3 = (if truthy lang then c2\<lparr>language := lang\<rparr> else c2)
           in redis_setex (context_key phone_number) context_ttl c3 now w'))"

section \<open>Strings: \<open>strip\<close>, \<open>lower\<close>, \<open>json.dumps\<close>\<close>

text \<open>Whitespace as \<open>str.strip()\<close> sees it, among the code points below 256.\<close>

definition py_isspace :: "char \<Rightarrow> bool" where
  "py_isspace c =
     (let n = (of_char c :: nat)
      in (9 \<le> n \<and> n \<le> 13) \<or> (28 \<le> n \<and> n \<le> 32) \<or> n = 133 \<or> n = 160)"

definition py_strip :: "string \<Rightarrow> string" where
  "py_strip s = rev (dropWhile py_isspace (rev (dropWhile py_isspace s)))"

definition py_lower_char :: "char \<Rightarrow> char" where
  "py_lower_char c =
     (let n = (of_char c :: nat)
      in if (65 \<le> n \<and> n \<le> 90) \<or> (192 \<le> n \<and> n \<le> 222 \<and> n \<noteq> 215)
         then char_of (n + 32) else c)"

definition py_lower :: "string \<Rightarrow> string" where
  "py_lower s = map py_lower_char s"

definition digit_char :: "nat \<Rightarrow> char" where
  "digit_char d = ''0123456789abcdef'' ! (d mod 16)"

fun dec_nat :: "nat \<Rightarrow> string" where
  "dec_nat n = (if n < 10 then [digit_char n] else dec_nat (n div 10) @ [digit_char (n mod 10)])"

declare dec_nat.simps [simp del]

definition json_int :: "int \<Rightarrow> string" where
  "json_int i = (if i < 0 then ''-'' @ dec_nat (nat (- i)) else dec_nat (nat i))"

text \<open>
  String escaping of \<open>json.dumps\<close> with \<open>ensure_ascii\<close>: the quote, the backslash and the
  short control escapes, and a four-digit escape for every other character outside
  the range from the space to the tilde.
\<close>

definition json_escape_char :: "char \<Rightarrow> string" where
  "json_escape_char c =
     (let n = (of_char c :: nat)
      in if n = 92 then [CHR 0x5C, CHR 0x5C]
         else if n = 34 then [CHR 0x5C, CHR 0x22]
         else if n = 8 then [CHR 0x5C, CHR ''b'']
         else if n = 12 then [CHR 0x5C, CHR ''f'']
         else if n = 10 then [CHR 0x5C, CHR ''n'']
         else if n = 13 then [CHR 0x5C, CHR ''r'']
         else if n = 9 then [CHR 0x5C, CHR ''t'']
         else if 32 \<le> n \<and> n \<le> 126 then [c]
         else [CHR 0x5C, CHR ''u'', CHR ''0'', CHR ''0'', digit_char (n div 16), digit_char (n mod 16)])"

definition json_str :: "string \<Rightarrow> string" where
  "json_str s = [CHR 0x22] @ concat (map json_escape_char s) @ [CHR 0x22]"

text \<open>Items joined by a comma and a space, the default item separator.\<close>

fun json_join :: "string list \<Rightarrow> string" where
  "json_join [] = []"
| "json_join [x] = x"
| "json_join (x # y # ys) = x @ '', '' @ json_join (y # ys)"

section \<open>BusinessContext\<close>

record product =
  product_id :: int
  product_name :: string
  price :: int
  description :: string

record business_info =
  name :: string
  products :: "product list"
  faq :: "(string \<times> string) list"
  working_hours :: string

record business =
  business_id :: string
  info :: business_info

definition load_business_info :: business_info where
  "load_business_info =
     \<lparr>name = ''Demo Store'',
      products =
        [\<lparr>product_id = 1, product_name = ''Product A'', price = 100,
          description = ''High quality product A''\<rparr>,
         \<lparr>product_id = 2, product_name = ''Product B'', price = 200,
          description = ''Premium product B''\<rparr>],
      faq =
        [(''shipping'', ''We ship within 24 hours across the country''),
         (''payment'', ''We accept mobile money, bank transfer, and cash on delivery''),
         (''returns'', ''30-day return policy on all items'')],
      working_hours = ''Monday-Saturday, 9AM-6PM''\<rparr>"

text \<open>The constructor: keeps the identifier and loads the profile.\<close>

definition BusinessContext :: "string \<Rightarrow> business" where
  "BusinessContext bid = \<lparr>business_id = bid, info = load_business_info\<rparr>"

definition json_product :: "product \<Rightarrow> string" where
  "json_product p =
     ''{'' @ json_str ''id'' @ '': '' @ json_int (product_id p) @ '', '' @
     json_str ''name'' @ '': '' @ json_str (product_name p) @ '', '' @
     json_str ''price'' @ '': '' @ json_int (price p) @ '', '' @
     json_str ''description'' @ '': '' @ json_str (description p) @ ''}''"

definition json_products :: "product list \<Rightarrow> string" where
  "json_products ps = ''['' @ json_join (map json_product ps) @ '']''"

definition json_faq :: "(string \<times> string) list \<Rightarrow> string" where
  "json_faq kvs =
     ''{'' @ json_join (map (\<lambda>(k, v). json_str k @ '': '' @ json_str v) kvs) @ ''}''"

text \<open>\<open>LANGUAGE_MAP.get(language, 'English')\<close>.\<close>

definition language_name :: "string \<Rightarrow> string" where
  "language_name lang = (case map_of LANGUAGE_MAP lang of None \<Rightarrow> ''English'' | Some n \<Rightarrow> n)"

definition get_system_prompt :: "business \<Rightarrow> string \<Rightarrow> string" where
  "get_system_prompt b lang =
     ''You are a helpful sales assistant for '' @ name (info b) @ ''. '' @ [CHR 0x0A] @
     ''Respond in '' @ language_name lang @ ''.'' @ [CHR 0x0A] @
     ''Products: '' @ json_products (products (info b)) @ [CHR 0x0A] @
     ''FAQ: '' @ json_faq (faq (info b)) @ [CHR 0x0A] @
     ''Working Hours: '' @ working_hours (info b) @ [CHR 0x0A] @
     ''Be friendly, concise, and helpful. Keep it short for WhatsApp.''"

section \<open>Language detection\<close>

text \<open>
  The detection request is logged, then answered by the capability. A raise inside the
  \<open>try\<close> block gives \<open>en\<close>; otherwise the stripped, lower-cased answer is kept when it
  is a key of \<open>LANGUAGE_MAP\<close>.
\<close>

definition detect_language :: "caps \<Rightarrow> string \<Rightarrow> world \<Rightarrow> string \<times> world" where
  "detect_language cp text w =
     (let w' = w\<lparr>detect_log := detect_log w @ [text]\<rparr>
      in case detect_api cp text of
           None \<Rightarrow> (''en'', w')
         | Some raw \<Rightarrow>
             (let lang_code = py_lower (py_strip raw)
              in (if lang_code \<in> set (map fst LANGUAGE_MAP) then lang_code else ''en'', w')))"

section \<open>Response generation\<close>

text \<open>
  Lines 119 and 120: the stored language is kept when it is set and there is history;
  otherwise the language of the new message is detected.
\<close>

definition resolve_language :: "caps \<Rightarrow> ctx \<Rightarrow> string \<Rightarrow> world \<Rightarrow> string \<times> world" where
  "resolve_language cp c message w =
     (case language c of
        None \<Rightarrow> detect_language cp message w
      | Some l \<Rightarrow>
          (if l = [] \<or> length (messages c) = 0 then detect_language cp message w
           else (l, w)))"

text \<open>Lines 124 to 128: the loop appends a user and an assistant entry per turn.\<close>

definition build_messages :: "string \<Rightarrow> turn list \<Rightarrow> string \<Rightarrow> chat_message list" where
  "build_messages system_prompt history message =
     foldl (\<lambda>acc msg. acc @ [\<lparr>role = ''user'', content = Some (user msg)\<rparr>,
                              \<lparr>role = ''assistant'', content = assistant msg\<rparr>])
           [\<lparr>role = ''system'', content = Some system_prompt\<rparr>]
           (last_n 5 history)
     @ [\<lparr>role = ''user'', content = Some message\<rparr>]"

text \<open>
  The body of the \<open>try\<close> block: \<open>Inl\<close> is an exception on its way to the handler. A
  request is taken to happen at the one instant \<open>now\<close>: its reads, its write and the
  timestamp of the new turn all see the same clock. The message list is logged before the
  reply call answers or raises. Lines 137 to 139 do not look at the content of the
  reply: a \<open>None\<close> is stored as the assistant text and returned like a text.
\<close>

definition generate_response_try ::
    "caps \<Rightarrow> string \<Rightarrow> string \<Rightarrow> string \<Rightarrow> nat \<Rightarrow> world \<Rightarrow> (error + string option) \<times> world" where
  "generate_response_try cp message phone_number bid now w =
     (case get_context phone_number now w of
        (Inl e, w1) \<Rightarrow> (Inl e, w1)
      | (Inr c, w1) \<Rightarrow>
          (case resolve_language cp c message w1 of
             (lang, w2) \<Rightarrow>
               (let b = BusinessContext bid;
                    msgs = build_messages (get_system_prompt b lang) (messages c) message;
                    w3 = w2\<lparr>model_log := model_log w2 @ [msgs]\<rparr>
                in case model_api cp msgs of
                     Raises \<Rightarrow> (Inl ModelError, w3)
                   | Content ai_response \<Rightarrow>
                       (case update_context phone_number message ai_response (Some lang) now w3 of
                          (Inl e, w4) \<Rightarrow> (Inl e, w4)
                        | (Inr u, w4) \<Rightarrow> (Inr ai_response, w4)))))"

text \<open>The value returned: a text, or \<open>None\<close> for Python's \<open>None\<close>.\<close>

definition generate_response ::
    "caps \<Rightarrow> string \<Rightarrow> string \<Rightarrow> string \<Rightarrow> nat \<Rightarrow> world \<Rightarrow> string option \<times> world" where
  "generate_response cp message phone_number bid now w =
     (case generate_response_try cp message phone_number bid now w of
        (Inl e, w') \<Rightarrow> (Some apology, w')
      | (Inr r, w') \<Rightarrow> (r, w'))"

section \<open>Observations and drivers used by the properties\<close>

text \<open>What a fault-free read of the session of \<open>phone_number\<close> yields at instant \<open>now\<close>.\<close>

definition current_context :: "world \<Rightarrow> string \<Rightarrow> nat \<Rightarrow> ctx" where
  "current_context w phone_number now =
     (case kv w (context_key phone_number) of
        None \<Rightarrow> default_context
      | Some (v, expiry) \<Rightarrow> (if now < expiry then v else default_context))"

text \<open>No session is stored for the user, or the stored one has expired.\<close>

definition no_live_session :: "world \<Rightarrow> string \<Rightarrow> nat \<Rightarrow> bool" where
  "no_live_session w phone_number now =
     (case kv w (context_key phone_number) of
        None \<Rightarrow> True
      | Some (v, expiry) \<Rightarrow> expiry \<le> now)"

text \<open>
  A sequence of \<open>update_context\<close> calls for one user; each call is given as its instant,
  the user text, the assistant text and the optional language.
\<close>

type_synonym put = "nat \<times> string \<times> string option \<times> string option"

fun run_puts :: "string \<Rightarrow> put list \<Rightarrow> world \<Rightarrow> world" where
  "run_puts phone_number [] w = w"
| "run_puts phone_number ((now, message, response, lang) # ps) w =
     run_puts phone_number ps (snd (update_context phone_number message response lang now w))"

fun turn_of :: "put \<Rightarrow> turn" where
  "turn_of (now, message, response, lang) =
     \<lparr>timestamp = now, user = message, assistant = response\<rparr>"

text \<open>Each call after the first happens before the expiry set by the call before it.\<close>

fun within_ttl :: "nat list \<Rightarrow> bool" where
  "within_ttl [] = True"
| "within_ttl [t] = True"
| "within_ttl (t # u # ts) = (u < t + context_ttl \<and> within_ttl (u # ts))"

text \<open>Whether the \<open>i\<close>-th storage call to come raises.\<close>

definition fault_at :: "bool list \<Rightarrow> nat \<Rightarrow> bool" where
  "fault_at fs i = (i < length fs \<and> fs ! i)"

text \<open>
  The language a request works with and the message list it sends, read off a
  fault-free first storage call.
\<close>

definition request_language :: "caps \<Rightarrow> string \<Rightarrow> string \<Rightarrow> nat \<Rightarrow> world \<Rightarrow> string" where
  "request_language cp message phone_number now w =
     fst (resolve_language cp (current_context w phone_number now) message w)"

definition request_prompt ::
    "caps \<Rightarrow> string \<Rightarrow> string \<Rightarrow> string \<Rightarrow> nat \<Rightarrow> world \<Rightarrow> chat_message list" where
  "request_prompt cp message phone_number bid now w =
     build_messages
       (get_system_prompt (BusinessContext bid) (request_language cp message phone_number now w))
       (messages (current_context w phone_number now)) message"

text \<open>
  A sequence of requests; each is given as the capabilities' behaviour during it, the
  message, the sender, the business identifier and its instant.
\<close>

type_synonym request = "caps \<times> string \<times> string \<times> string \<times> nat"

fun run_requests :: "request list \<Rightarrow> world \<Rightarrow> world" where
  "run_requests [] w = w"
| "run_requests ((cp, message, phone_number, bid, now) # rs) w =
     run_requests rs (snd (generate_response cp message phone_number bid now w))"

text \<open>Every stored session carries one of the keys of \<open>LANGUAGE_MAP\<close>.\<close>

definition languages_supported :: "world \<Rightarrow> bool" where
  "languages_supported w =
     (\<forall>key c e. kv w key = Some (c, e) \<longrightarrow>
        (\<exists>l. language c = Some l \<and> l \<in> set (map fst LANGUAGE_MAP)))"

text \<open>A capability that gives the same answer to every request.\<close>

definition always :: "'b \<Rightarrow> 'a \<Rightarrow> 'b" where
  "always r x = r"

definition empty_world :: world where
  "empty_world = \<lparr>kv = Map.empty, faults = [], detect_log = [], model_log = []\<rparr>"

text \<open>The value a fault-free \<open>update_context\<close> writes over the context \<open>c\<close> it has read.\<close>

definition put_value :: "ctx \<Rightarrow> string \<Rightarrow> string option \<Rightarrow> string option \<Rightarrow> nat \<Rightarrow> ctx" where
  "put_value c message response lang now =
     (let c2 = c\<lparr>messages := last_n 10 (messages c @
                  [\<lparr>timestamp = now, user = message, assistant = response\<rparr>])\<rparr>
      in if truthy lang then c2\<lparr>language := lang\<rparr> else c2)"

text \<open>
  A request runs to its end: none of its three storage calls raises and the reply call
  answers.
\<close>

text \<open>The content of a reply; a raise has none.\<close>

fun reply_content :: "reply \<Rightarrow> string option" where
  "reply_content Raises = None"
| "reply_content (Content c) = c"

definition request_ok :: "caps \<Rightarrow> string \<Rightarrow> string \<Rightarrow> string \<Rightarrow> nat \<Rightarrow> world \<Rightarrow> bool" where
  "request_ok cp message phone_number bid now w =
     (\<not> fault_at (faults w) 0 \<and>
      model_api cp (request_prompt cp message phone_number bid now w) \<noteq> Raises \<and>
      \<not> fault_at (faults w) 1 \<and> \<not> fault_at (faults w) 2)"

subsection \<open>Concrete inputs\<close>

text \<open>A store holding one French session of one turn, written at instant 10.\<close>

definition fr_session :: ctx where
  "fr_session =
     \<lparr>messages = [\<lparr>timestamp = 10, user = ''Bonjour'', assistant = Some ''Salut''\<rparr>],
      language = Some ''fr'', business_context = []\<rparr>"

definition fr_world :: world where
  "fr_world =
     \<lparr>kv = [context_key ''15550001'' \<mapsto> (fr_session, 3610)],
      faults = [], detect_log = [], model_log = []\<rparr>"

text \<open>Eleven calls one second apart.\<close>

definition eleven_puts :: "put list" where
  "eleven_puts = map (\<lambda>n. (n, ''question'', Some ''answer'', None)) [0..<11]"

text \<open>Behaviours of the capabilities: named after what detection and the reply call do.\<close>

definition detect_es_reply_hello :: caps where
  "detect_es_reply_hello =
     \<lparr>detect_api = always (Some ''es''), model_api = always (Content (Some ''Hello!''))\<rparr>"

definition detect_upper_fr :: caps where
  "detect_upper_fr = \<lparr>detect_api = always (Some ''FR''), model_api = always Raises\<rparr>"

definition detect_fails_reply_hello :: caps where
  "detect_fails_reply_hello =
     \<lparr>detect_api = always None, model_api = always (Content (Some ''Hello!''))\<rparr>"

definition reply_without_content :: caps where
  "reply_without_content =
     \<lparr>detect_api = always (Some ''fr''), model_api = always (Content None)\<rparr>"

definition reply_fails :: caps where
  "reply_fails = \<lparr>detect_api = always (Some ''fr''), model_api = always Raises\<rparr>"

section \<open>Auxiliary facts\<close>

lemma get_context_no_fault:
  "faults w = [] \<Longrightarrow> get_context p now w = (Inr (current_context w p now), w)"
  by (simp add: get_context_def redis_get_def next_fault_def current_context_def
        split: option.splits)

lemma update_context_no_fault:
  "faults w = [] \<Longrightarrow>
   update_context p m r l now w =
     (Inr (), w\<lparr>kv := (kv w)(context_key p \<mapsto>
        ((if truthy l then (\<lambda>c. c\<lparr>language := l\<rparr>) else (\<lambda>c. c))
           ((current_context w p now)\<lparr>messages :=
              last_n 10 (messages (current_context w p now) @
                         [\<lparr>timestamp = now, user = m, assistant = r\<rparr>])\<rparr>),
         now + context_ttl))\<rparr>)"
  by (simp add: update_context_def get_context_no_fault redis_setex_def next_fault_def Let_def)

lemma last_n_absorb: "last_n n (last_n n xs @ ys) = last_n n (xs @ ys)"
proof (cases "length xs \<le> n")
  case True
  then show ?thesis by (simp add: last_n_def)
next
  case False
  then have "length xs + length ys - (length xs - n + n) + (length xs - n) = length xs + length ys - n"
    by arith
  with False show ?thesis by (simp add: last_n_def)
qed

lemma length_last_n: "length (last_n n xs) = min n (length xs)"
  by (simp add: last_n_def)

lemma put_history:
  assumes "faults w = []" and "t < now + context_ttl"
  shows "messages (current_context (snd (update_context p m r l now w)) p t) =
           last_n 10 (messages (current_context w p now) @
                      [\<lparr>timestamp = now, user = m, assistant = r\<rparr>])"
    and "faults (snd (update_context p m r l now w)) = []"
  using assms by (simp_all add: update_context_no_fault current_context_def)

lemma run_puts_history:
  assumes "faults w = []" and "ps \<noteq> []" and "within_ttl (map fst ps)"
  shows "messages (current_context (run_puts p ps w) p (fst (last ps))) =
           last_n 10 (messages (current_context w p (fst (hd ps))) @ map turn_of ps)"
  using assms
proof (induction ps arbitrary: w)
  case Nil
  then show ?case by simp
next
  case (Cons x ps)
  obtain now m r l where x: "x = (now, m, r, l)" by (cases x) auto
  let ?w1 = "snd (update_context p m r l now w)"
  show ?case
  proof (cases ps)
    case Nil
    have "now < now + context_ttl" by (simp add: context_ttl_def)
    with Cons.prems(1) Nil x show ?thesis by (simp add: put_history(1))
  next
    case (Cons y qs)
    from Cons.prems(3) x Cons have near: "fst y < now + context_ttl" and rest: "within_ttl (map fst ps)"
      by simp_all
    have f1: "faults ?w1 = []" using Cons.prems(1) near by (rule put_history(2))
    have "messages (current_context (run_puts p ps ?w1) p (fst (last ps))) =
            last_n 10 (messages (current_context ?w1 p (fst (hd ps))) @ map turn_of ps)"
      using f1 rest Cons by (intro Cons.IH) simp_all
    also have "messages (current_context ?w1 p (fst (hd ps))) =
                 last_n 10 (messages (current_context w p now) @ [turn_of x])"
      using put_history(1)[OF Cons.prems(1), of "fst y" now p m r l] near Cons x by simp
    finally show ?thesis using Cons x by (simp add: last_n_absorb)
  qed
qed

lemma within_ttl_take: "within_ttl ts \<Longrightarrow> within_ttl (take k ts)"
proof (induction ts arbitrary: k rule: within_ttl.induct)
  case 1
  then show ?case by simp
next
  case (2 t)
  then show ?case by (cases k) simp_all
next
  case (3 t u ts)
  show ?case
  proof (cases k)
    case 0
    then show ?thesis by simp
  next
    case (Suc j)
    show ?thesis
    proof (cases j)
      case 0
      with Suc show ?thesis by simp
    next
      case (Suc n)
      with "3.IH"[of "Suc n"] "3.prems" \<open>k = Suc j\<close> show ?thesis by simp
    qed
  qed
qed

lemma fault_at_tl: "fault_at (tl fs) i = fault_at fs (Suc i)"
  by (cases fs) (simp_all add: fault_at_def)

lemma next_fault_eq: "next_fault w = (fault_at (faults w) 0, w\<lparr>faults := tl (faults w)\<rparr>)"
  by (cases "faults w") (simp_all add: next_fault_def fault_at_def)

lemma get_context_eq:
  "get_context p now w =
     (if fault_at (faults w) 0 then Inl StorageError else Inr (current_context w p now),
      w\<lparr>faults := tl (faults w)\<rparr>)"
  by (simp add: get_context_def redis_get_def next_fault_eq current_context_def
        split: option.splits)

lemma redis_setex_eq:
  "redis_setex key ttl v now w =
     (if fault_at (faults w) 0 then (Inl StorageError, w\<lparr>faults := tl (faults w)\<rparr>)
      else (Inr (), w\<lparr>faults := tl (faults w), kv := (kv w)(key \<mapsto> (v, now + ttl))\<rparr>))"
  by (simp add: redis_setex_def next_fault_eq)

lemma current_context_upd:
  "current_context (w\<lparr>faults := fs\<rparr>) p now = current_context w p now"
  "current_context (w\<lparr>detect_log := dl\<rparr>) p now = current_context w p now"
  "current_context (w\<lparr>model_log := ml\<rparr>) p now = current_context w p now"
  by (simp_all add: current_context_def)

lemma update_context_eq:
  "update_context p m r l now w =
     (if fault_at (faults w) 0 then (Inl StorageError, w\<lparr>faults := tl (faults w)\<rparr>)
      else if fault_at (faults w) 1 then (Inl StorageError, w\<lparr>faults := tl (tl (faults w))\<rparr>)
      else (Inr (), w\<lparr>faults := tl (tl (faults w)),
                       kv := (kv w)(context_key p \<mapsto>
                               (put_value (current_context w p now) m r l now, now + context_ttl))\<rparr>))"
  by (simp add: update_context_def get_context_eq redis_setex_eq fault_at_tl put_value_def Let_def)

lemma detect_language_eq:
  "detect_language cp t w =
     (fst (detect_language cp t empty_world), w\<lparr>detect_log := detect_log w @ [t]\<rparr>)"
  by (simp add: detect_language_def Let_def split: option.splits)

lemma resolve_language_eq:
  "resolve_language cp c m w =
     (fst (resolve_language cp c m empty_world),
      if truthy (language c) \<and> messages c \<noteq> [] then w else w\<lparr>detect_log := detect_log w @ [m]\<rparr>)"
  by (cases "language c") (simp_all add: resolve_language_def detect_language_eq[of cp m w])

lemma resolve_language_fst:
  "fst (resolve_language cp c m w) = fst (resolve_language cp c m w')"
  by (simp add: resolve_language_eq[of cp c m w] resolve_language_eq[of cp c m w'])

lemma generate_response_try_fst:
  "fst (generate_response_try cp m p bid now w) =
     (if fault_at (faults w) 0 then Inl StorageError
      else case model_api cp (request_prompt cp m p bid now w) of
             Raises \<Rightarrow> Inl ModelError
           | Content r \<Rightarrow>
               if fault_at (faults w) 1 \<or> fault_at (faults w) 2 then Inl StorageError
               else Inr r)"
  by (simp add: generate_response_try_def get_context_eq resolve_language_eq[of _ _ _ "w\<lparr>faults := tl (faults w)\<rparr>"]
        update_context_eq fault_at_tl request_prompt_def request_language_def
        resolve_language_fst[of _ _ _ w empty_world] Let_def numeral_2_eq_2 current_context_upd
        split: reply.splits)

lemma generate_response_try_kv:
  "kv (snd (generate_response_try cp m p bid now w)) =
     (if request_ok cp m p bid now w
      then (kv w)(context_key p \<mapsto>
             (put_value (current_context w p now) m
                (reply_content (model_api cp (request_prompt cp m p bid now w)))
                (Some (request_language cp m p now w)) now, now + context_ttl))
      else kv w)"
  by (simp add: generate_response_try_def get_context_eq resolve_language_eq[of _ _ _ "w\<lparr>faults := tl (faults w)\<rparr>"]
        update_context_eq fault_at_tl request_prompt_def request_language_def request_ok_def
        resolve_language_fst[of _ _ _ w empty_world] Let_def numeral_2_eq_2 current_context_upd
        split: reply.splits)

lemma generate_response_try_detect_log:
  "detect_log (snd (generate_response_try cp m p bid now w)) =
     (if fault_at (faults w) 0 \<or>
         (truthy (language (current_context w p now)) \<and> messages (current_context w p now) \<noteq> [])
      then detect_log w else detect_log w @ [m])"
  by (simp add: generate_response_try_def get_context_eq resolve_language_eq[of _ _ _ "w\<lparr>faults := tl (faults w)\<rparr>"]
        update_context_eq fault_at_tl Let_def
        split: reply.splits)

lemma generate_response_fst:
  "fst (generate_response cp m p bid now w) =
     (case fst (generate_response_try cp m p bid now w) of Inl e \<Rightarrow> Some apology | Inr r \<Rightarrow> r)"
  by (simp add: generate_response_def case_prod_beta split: sum.splits)

lemma generate_response_snd:
  "snd (generate_response cp m p bid now w) = snd (generate_response_try cp m p bid now w)"
  by (simp add: generate_response_def case_prod_beta split: sum.splits)

lemma foldl_append_concat: "foldl (\<lambda>acc x. acc @ f x) a xs = a @ concat (map f xs)"
  by (induction xs arbitrary: a) simp_all

lemma supported_codes:
  "set (map fst LANGUAGE_MAP) =
     {''en'', ''ar'', ''fr'', ''sw'', ''ha'', ''yo'', ''am'', ''zu'', ''pt''}"
  by (simp add: LANGUAGE_MAP_def)

lemma en_supported: "''en'' \<in> set (map fst LANGUAGE_MAP)"
  by (simp add: LANGUAGE_MAP_def)

lemma detect_language_supported:
  "fst (detect_language cp t w) \<in> set (map fst LANGUAGE_MAP)"
  by (simp add: detect_language_def Let_def en_supported del: set_map split: option.splits)

lemma resolve_language_supported:
  assumes "language c = Some l" and "l \<in> set (map fst LANGUAGE_MAP)"
  shows "fst (resolve_language cp c m w) \<in> set (map fst LANGUAGE_MAP)"
  using assms by (simp add: resolve_language_def detect_language_supported del: set_map)

lemma current_context_supported:
  assumes "languages_supported w"
  shows "\<exists>l. language (current_context w p now) = Some l \<and> l \<in> set (map fst LANGUAGE_MAP)"
proof (cases "kv w (context_key p)")
  case None
  then show ?thesis by (simp add: current_context_def default_context_def en_supported del: set_map)
next
  case (Some ce)
  obtain c e where ce: "ce = (c, e)" by (cases ce)
  with Some assms have "\<exists>l. language c = Some l \<and> l \<in> set (map fst LANGUAGE_MAP)"
    unfolding languages_supported_def by blast
  with Some ce show ?thesis
    by (simp add: current_context_def default_context_def en_supported del: set_map)
qed

lemma put_value_language:
  "language (put_value c m r l now) = (if truthy l then l else language c)"
  by (simp add: put_value_def Let_def)

lemma generate_response_supported:
  assumes "languages_supported w"
  shows "languages_supported (snd (generate_response cp m p bid now w))"
proof -
  obtain l where l: "language (current_context w p now) = Some l"
      and ls: "l \<in> set (map fst LANGUAGE_MAP)"
    using current_context_supported[OF assms] by blast
  have rl: "request_language cp m p now w \<in> set (map fst LANGUAGE_MAP)"
    unfolding request_language_def using l ls by (rule resolve_language_supported)
  have "\<exists>l'. language (put_value (current_context w p now) m r
                 (Some (request_language cp m p now w)) now) = Some l'
              \<and> l' \<in> set (map fst LANGUAGE_MAP)" for r
    using l ls rl by (simp add: put_value_language del: set_map)
  with assms show ?thesis
    unfolding languages_supported_def generate_response_snd generate_response_try_kv
    by (auto split: if_splits)
qed

lemma run_requests_supported:
  "languages_supported w \<Longrightarrow> languages_supported (run_requests rs w)"
proof (induction rs arbitrary: w)
  case Nil
  then show ?case by simp
next
  case (Cons rq rs)
  obtain cp m p bid now where rq: "rq = (cp, m, p, bid, now)" by (cases rq)
  from Cons.prems have "languages_supported (snd (generate_response cp m p bid now w))"
    by (rule generate_response_supported)
  then show ?case unfolding rq by (simp add: Cons.IH)
qed

section \<open>Session store\<close>

text \<open>
  Claim C1 (bounded history). A user's session receives a sequence \<open>ps\<close> of
  \<open>update_context\<close> calls, none of which meets a storage fault and each made before the
  expiry set by the one before. After each call, that is after the first \<open>k\<close> calls for
  every \<open>k\<close> from 1 to the length of \<open>ps\<close>, the stored history is the history the first
  call found followed by the \<open>k\<close> new turns, in that order and as they were appended,
  with just enough of the oldest entries dropped from the front to leave at most 10.
\<close>

theorem bounded_history:
  assumes "faults w = []" and "within_ttl (map fst ps)" and "0 < k" and "k \<le> length ps"
  shows "messages (current_context (run_puts p (take k ps) w) p (fst (ps ! (k - 1)))) =
           drop (length (messages (current_context w p (fst (hd ps)))) + k - 10)
             (messages (current_context w p (fst (hd ps))) @ map turn_of (take k ps))
         \<and> length (messages (current_context (run_puts p (take k ps) w) p (fst (ps ! (k - 1))))) \<le> 10"
proof -
  let ?qs = "take k ps"
  from assms(3,4) have ne: "?qs \<noteq> []" by auto
  have w: "within_ttl (map fst ?qs)"
    using within_ttl_take[OF assms(2), of k] by (simp add: take_map)
  have l: "last ?qs = ps ! (k - 1)"
    using assms(3,4) ne by (simp add: last_conv_nth)
  have h: "hd ?qs = hd ps"
    using assms(3) by (cases ps; cases k) simp_all
  have "messages (current_context (run_puts p ?qs w) p (fst (last ?qs))) =
          last_n 10 (messages (current_context w p (fst (hd ?qs))) @ map turn_of ?qs)"
    using assms(1) ne w by (rule run_puts_history)
  with l h have eq: "messages (current_context (run_puts p ?qs w) p (fst (ps ! (k - 1)))) =
          last_n 10 (messages (current_context w p (fst (hd ps))) @ map turn_of ?qs)"
    by simp
  have len: "length (messages (current_context w p (fst (hd ps))) @ map turn_of ?qs) =
               length (messages (current_context w p (fst (hd ps)))) + k"
    using assms(4) by simp
  have "length (messages (current_context (run_puts p ?qs w) p (fst (ps ! (k - 1))))) \<le> 10"
    unfolding eq by (simp add: length_last_n)
  moreover have "messages (current_context (run_puts p ?qs w) p (fst (ps ! (k - 1)))) =
           drop (length (messages (current_context w p (fst (hd ps)))) + k - 10)
             (messages (current_context w p (fst (hd ps))) @ map turn_of ?qs)"
    unfolding eq last_n_def len ..
  ultimately show ?thesis by (rule conjI[rotated])
qed

theorem bounded_history_witness:
  "faults empty_world = [] \<and> within_ttl (map fst eleven_puts) \<and> (0::nat) < 11
   \<and> 11 \<le> length eleven_puts
   \<and> messages (current_context (run_puts ''15550001'' (take 11 eleven_puts) empty_world)
        ''15550001'' (fst (eleven_puts ! (11 - 1)))) =
       map (\<lambda>n. \<lparr>timestamp = n, user = ''question'', assistant = Some ''answer''\<rparr>) [1..<11]"
proof -
  have h1: "faults empty_world = []" by (simp add: empty_world_def)
  have h2: "within_ttl (map fst eleven_puts)" by code_simp
  have h3: "(0::nat) < 11" by simp
  have h4: "11 \<le> length eleven_puts" by (simp add: eleven_puts_def)
  have r: "drop (length (messages (current_context empty_world ''15550001'' (fst (hd eleven_puts)))) + 11 - 10)
             (messages (current_context empty_world ''15550001'' (fst (hd eleven_puts))) @
              map turn_of (take 11 eleven_puts)) =
           map (\<lambda>n. \<lparr>timestamp = n, user = ''question'', assistant = Some ''answer''\<rparr>) [1..<11]"
    by code_simp
  have "messages (current_context (run_puts ''15550001'' (take 11 eleven_puts) empty_world)
        ''15550001'' (fst (eleven_puts ! (11 - 1)))) =
       map (\<lambda>n. \<lparr>timestamp = n, user = ''question'', assistant = Some ''answer''\<rparr>) [1..<11]"
    by (rule trans[OF conjunct1[OF bounded_history[OF h1 h2 h3 h4]] r])
  with h1 h2 h3 h4 show ?thesis by (intro conjI)
qed

text \<open>
  For a user with no stored session \<open>get_context\<close> returns a context whose language is
  the code \<open>en\<close>, which is a set (truthy) value.
\<close>

theorem get_context_unset_counterexample:
  "fst (get_context ''15550001'' 0 empty_world) =
     Inr \<lparr>messages = [], language = Some ''en'', business_context = []\<rparr>
   \<and> truthy (Some ''en'')"
  by (simp add: get_context_eq current_context_def default_context_def empty_world_def fault_at_def)

text \<open>
  Claim C3 (fresh-session default), as the code has it. When the read does not raise and
  the user has no stored session or only an expired one, \<open>get_context\<close> returns the
  default context, with an empty history and the language \<open>en\<close>, and leaves the store
  as it was; the absent and the expired case give the same result.
\<close>

theorem get_context_fresh:
  assumes "\<not> fault_at (faults w) 0" and "no_live_session w p now"
  shows "fst (get_context p now w) =
           Inr \<lparr>messages = [], language = Some ''en'', business_context = []\<rparr>
         \<and> kv (snd (get_context p now w)) = kv w"
  using assms
  by (auto simp add: get_context_eq current_context_def no_live_session_def default_context_def
        split: option.splits)

theorem get_context_fresh_witness:
  "\<not> fault_at (faults fr_world) 0 \<and> no_live_session fr_world ''15550001'' 4000
   \<and> fst (get_context ''15550001'' 4000 fr_world) =
       Inr \<lparr>messages = [], language = Some ''en'', business_context = []\<rparr>
   \<and> kv (snd (get_context ''15550001'' 4000 fr_world)) = kv fr_world"
proof -
  have h1: "\<not> fault_at (faults fr_world) 0" by (simp add: fr_world_def fault_at_def)
  have h2: "no_live_session fr_world ''15550001'' 4000"
    by (simp add: no_live_session_def fr_world_def)
  from get_context_fresh[OF h1 h2] h1 h2 show ?thesis by (intro conjI) simp_all
qed

text \<open>
  Claim C7 (TTL refresh and conditional language write). After an \<open>update_context\<close>
  that returns normally, the keyspace differs from the one before only at the user's
  key. That key expires 3600 seconds after the call and holds the context the call read
  with the new turn appended and the history cut to its last 10 entries, the business
  context untouched, and as language the supplied one when that is non-empty and
  otherwise the language that was read.
\<close>

theorem update_context_ttl_language:
  assumes "fst (update_context p m r l now w) = Inr ()"
  shows "kv (snd (update_context p m r l now w)) =
           (kv w)(context_key p \<mapsto> (put_value (current_context w p now) m r l now, now + 3600))
         \<and> messages (put_value (current_context w p now) m r l now) =
             last_n 10 (messages (current_context w p now) @
                        [\<lparr>timestamp = now, user = m, assistant = r\<rparr>])
         \<and> language (put_value (current_context w p now) m r l now) =
             (if truthy l then l else language (current_context w p now))
         \<and> business_context (put_value (current_context w p now) m r l now) =
             business_context (current_context w p now)"
proof -
  from assms have "\<not> fault_at (faults w) 0" and "\<not> fault_at (faults w) 1"
    by (auto simp add: update_context_eq split: if_splits)
  then have "kv (snd (update_context p m r l now w)) =
           (kv w)(context_key p \<mapsto> (put_value (current_context w p now) m r l now, now + 3600))"
    by (simp add: update_context_eq context_ttl_def)
  then show ?thesis by (simp add: put_value_def Let_def)
qed

theorem update_context_ttl_language_witness:
  "fst (update_context ''15550001'' ''Merci'' (Some ''De rien'') None 100 fr_world) = Inr ()
   \<and> kv (snd (update_context ''15550001'' ''Merci'' (Some ''De rien'') None 100 fr_world))
        (context_key ''15550001'') =
       Some (\<lparr>messages = [\<lparr>timestamp = 10, user = ''Bonjour'', assistant = Some ''Salut''\<rparr>,
                           \<lparr>timestamp = 100, user = ''Merci'', assistant = Some ''De rien''\<rparr>],
              language = Some ''fr'', business_context = []\<rparr>, 3700)"
proof -
  have h: "fst (update_context ''15550001'' ''Merci'' (Some ''De rien'') None 100 fr_world) = Inr ()"
    by (simp add: update_context_eq fault_at_def fr_world_def)
  have c: "current_context fr_world ''15550001'' 100 = fr_session"
    by (simp add: current_context_def fr_world_def)
  have v: "put_value fr_session ''Merci'' (Some ''De rien'') None 100 =
       \<lparr>messages = [\<lparr>timestamp = 10, user = ''Bonjour'', assistant = Some ''Salut''\<rparr>,
                    \<lparr>timestamp = 100, user = ''Merci'', assistant = Some ''De rien''\<rparr>],
        language = Some ''fr'', business_context = []\<rparr>"
    by (simp add: put_value_def fr_session_def last_n_def)
  from conjunct1[OF update_context_ttl_language[OF h]] h show ?thesis
    by (simp add: c v)
qed

section \<open>Language resolution\<close>

text \<open>
  Claim C4 (sticky language). When the session read by the request has a set language
  and a non-empty history, the language step returns the stored language without
  touching the world, and the whole request sends nothing to the detection capability.
  Detection therefore happens only when the language is unset or the history is empty.
\<close>

theorem sticky_language:
  assumes "fst (get_context p now w) = Inr c"
    and "language c = Some l" and "l \<noteq> []" and "messages c \<noteq> []"
  shows "resolve_language cp c m w1 = (l, w1)
         \<and> detect_log (snd (generate_response cp m p bid now w)) = detect_log w"
proof -
  from assms(1) have nf: "\<not> fault_at (faults w) 0" and c: "current_context w p now = c"
    by (auto simp add: get_context_eq split: if_splits)
  have "resolve_language cp c m w1 = (l, w1)"
    using assms(2-4) by (simp add: resolve_language_def)
  moreover have "detect_log (snd (generate_response cp m p bid now w)) = detect_log w"
    using assms(2-4) by (simp add: generate_response_snd generate_response_try_detect_log c)
  ultimately show ?thesis by simp
qed

theorem sticky_language_witness:
  "fst (get_context ''15550001'' 100 fr_world) = Inr fr_session
   \<and> language fr_session = Some ''fr'' \<and> ''fr'' \<noteq> [] \<and> messages fr_session \<noteq> []
   \<and> resolve_language detect_es_reply_hello fr_session ''Merci'' fr_world = (''fr'', fr_world)
   \<and> detect_log (snd (generate_response detect_es_reply_hello ''Merci'' ''15550001'' ''demo'' 100 fr_world))
       = detect_log fr_world"
proof -
  have h1: "fst (get_context ''15550001'' 100 fr_world) = Inr fr_session"
    by (simp add: get_context_eq fault_at_def current_context_def fr_world_def)
  have h2: "language fr_session = Some ''fr''" by (simp add: fr_session_def)
  have h3: "''fr'' \<noteq> []" by simp
  have h4: "messages fr_session \<noteq> []" by (simp add: fr_session_def)
  from sticky_language[OF h1 h2 h3 h4] h1 h2 h3 h4 show ?thesis by (intro conjI) simp_all
qed

text \<open>
  The detection capability answers \<open>FR\<close>, which is not a key of \<open>LANGUAGE_MAP\<close>;
  \<open>detect_language\<close> returns \<open>fr\<close>, not \<open>en\<close>, because it strips and lower-cases the
  answer before the membership test.
\<close>

theorem detect_language_upper_counterexample:
  "detect_api detect_upper_fr ''Bonjour'' = Some ''FR''
   \<and> ''FR'' \<notin> set (map fst LANGUAGE_MAP)
   \<and> fst (detect_language detect_upper_fr ''Bonjour'' empty_world) = ''fr''
   \<and> fst (detect_language detect_upper_fr ''Bonjour'' empty_world) \<noteq> ''en''"
  by code_simp

text \<open>
  Claim C5 (fallback normalization), as the code has it. When the detection call raises,
  or its answer stripped and lower-cased is not a key of \<open>LANGUAGE_MAP\<close>,
  \<open>detect_language\<close> returns \<open>en\<close>. The function has no error result: a raise of the
  capability ends in the handler.
\<close>

theorem detect_language_fallback:
  assumes "detect_api cp t = None \<or>
           (\<exists>raw. detect_api cp t = Some raw \<and> py_lower (py_strip raw) \<notin> set (map fst LANGUAGE_MAP))"
  shows "fst (detect_language cp t w) = ''en''"
  using assms by (auto simp add: detect_language_def Let_def)

theorem detect_language_fallback_witness:
  "(detect_api detect_es_reply_hello ''Hola'' = None \<or>
    (\<exists>raw. detect_api detect_es_reply_hello ''Hola'' = Some raw \<and>
           py_lower (py_strip raw) \<notin> set (map fst LANGUAGE_MAP)))
   \<and> fst (detect_language detect_es_reply_hello ''Hola'' empty_world) = ''en''"
proof -
  have n: "py_lower (py_strip ''es'') \<notin> set (map fst LANGUAGE_MAP)" by code_simp
  have h: "detect_api detect_es_reply_hello ''Hola'' = None \<or>
    (\<exists>raw. detect_api detect_es_reply_hello ''Hola'' = Some raw \<and>
           py_lower (py_strip raw) \<notin> set (map fst LANGUAGE_MAP))"
    using n by (simp add: detect_es_reply_hello_def always_def)
  from detect_language_fallback[OF h] h show ?thesis by (intro conjI)
qed

text \<open>
  Claim C9 (supported-language invariant). Starting from a store in which every session
  has a supported language, as the empty store does, every session found in the store
  after any sequence of requests, under any behaviour of the capabilities and of the
  storage, has one of the nine supported codes as its language.
\<close>

theorem supported_language_invariant:
  assumes "languages_supported w" and "kv (run_requests rs w) key = Some (c, e)"
  shows "language c \<in> Some ` {''en'', ''ar'', ''fr'', ''sw'', ''ha'', ''yo'', ''am'', ''zu'', ''pt''}"
proof -
  from assms(1) have "languages_supported (run_requests rs w)"
    by (rule run_requests_supported)
  with assms(2) obtain l where l: "language c = Some l" and "l \<in> set (map fst LANGUAGE_MAP)"
    unfolding languages_supported_def by blast
  then have "l \<in> {''en'', ''ar'', ''fr'', ''sw'', ''ha'', ''yo'', ''am'', ''zu'', ''pt''}"
    by (simp only: supported_codes)
  then show ?thesis unfolding l by (rule imageI)
qed

theorem supported_language_invariant_witness:
  "languages_supported empty_world
   \<and> kv (run_requests [(detect_es_reply_hello, ''Hola'', ''15550001'', ''demo'', 0)] empty_world)
        (context_key ''15550001'') =
       Some (\<lparr>messages = [\<lparr>timestamp = 0, user = ''Hola'', assistant = Some ''Hello!''\<rparr>],
              language = Some ''en'', business_context = []\<rparr>, 3600)
   \<and> Some ''en'' \<in> Some ` {''en'', ''ar'', ''fr'', ''sw'', ''ha'', ''yo'', ''am'', ''zu'', ''pt''}"
proof -
  have h1: "languages_supported empty_world"
    by (simp add: languages_supported_def empty_world_def)
  have h2: "kv (run_requests [(detect_es_reply_hello, ''Hola'', ''15550001'', ''demo'', 0)] empty_world)
        (context_key ''15550001'') =
       Some (\<lparr>messages = [\<lparr>timestamp = 0, user = ''Hola'', assistant = Some ''Hello!''\<rparr>],
              language = Some ''en'', business_context = []\<rparr>, 3600)"
    by code_simp
  from supported_language_invariant[OF h1 h2] h1 h2 show ?thesis by (intro conjI) simp_all
qed

section \<open>Prompt assembly and business context\<close>

text \<open>
  Claim C6 (prompt assembly). The assembled list is the system message, then the user
  and assistant entries of the last \<open>min 5 (length history)\<close> turns, oldest first, then
  the new user message.
\<close>

theorem build_messages_shape:
  "build_messages sp h m =
     \<lparr>role = ''system'', content = Some sp\<rparr> #
     concat (map (\<lambda>t. [\<lparr>role = ''user'', content = Some (user t)\<rparr>,
                         \<lparr>role = ''assistant'', content = assistant t\<rparr>])
                 (drop (length h - 5) h)) @
     [\<lparr>role = ''user'', content = Some m\<rparr>]
   \<and> length (drop (length h - 5) h) = min 5 (length h)"
  by (simp add: build_messages_def last_n_def foldl_append_concat)

text \<open>
  Claim C10 (business identifier noninterference). The system prompt rendered for a
  language is the same for every pair of business identifiers.
\<close>

theorem system_prompt_ignores_business_id:
  "get_system_prompt (BusinessContext b1) lang = get_system_prompt (BusinessContext b2) lang"
  by (simp add: get_system_prompt_def BusinessContext_def)

section \<open>Failure handling\<close>

text \<open>
  Claim C2 (degrade on model failure). When the reply call raises inside
  \<open>generate_response\<close>, the function returns the fixed apology and the keyspace, values
  and expiry instants alike, is what it was before the request.
\<close>

theorem degrade_on_model_failure:
  assumes "fst (generate_response_try cp m p bid now w) = Inl ModelError"
  shows "fst (generate_response cp m p bid now w) = Some apology
         \<and> kv (snd (generate_response cp m p bid now w)) = kv w"
proof -
  from assms have "\<not> request_ok cp m p bid now w"
    by (auto simp add: generate_response_try_fst request_ok_def split: if_splits reply.splits)
  then have "kv (snd (generate_response cp m p bid now w)) = kv w"
    by (simp add: generate_response_snd generate_response_try_kv)
  moreover have "fst (generate_response cp m p bid now w) = Some apology"
    using assms by (simp add: generate_response_fst)
  ultimately show ?thesis by simp
qed

theorem degrade_on_model_failure_witness:
  "fst (generate_response_try reply_fails ''Merci'' ''15550001'' ''demo'' 100 fr_world) = Inl ModelError
   \<and> fst (generate_response reply_fails ''Merci'' ''15550001'' ''demo'' 100 fr_world) = Some apology
   \<and> kv (snd (generate_response reply_fails ''Merci'' ''15550001'' ''demo'' 100 fr_world)) = kv fr_world"
proof -
  have h: "fst (generate_response_try reply_fails ''Merci'' ''15550001'' ''demo'' 100 fr_world) = Inl ModelError"
    by (simp add: generate_response_try_fst fault_at_def fr_world_def reply_fails_def always_def)
  from degrade_on_model_failure[OF h] h show ?thesis by (intro conjI) simp_all
qed

text \<open>
  A reply whose content is \<open>None\<close> raises nothing: the request returns \<open>None\<close> and the
  turn is stored with \<open>None\<close> as its assistant text.
\<close>

lemma generate_response_without_content:
  "fst (generate_response reply_without_content ''Merci'' ''15550001'' ''demo'' 100 fr_world) = None
   \<and> map assistant
         (messages (current_context
            (snd (generate_response reply_without_content ''Merci'' ''15550001'' ''demo'' 100 fr_world))
            ''15550001'' 100)) = [Some ''Salut'', None]"
  by code_simp

text \<open>
  The detection call raises, the reply call answers \<open>Hello!\<close> and storage works:
  \<open>generate_response\<close> returns \<open>Hello!\<close>, not the apology.
\<close>

theorem generate_response_detect_failure_counterexample:
  "detect_api detect_fails_reply_hello ''Hola'' = None
   \<and> fst (generate_response detect_fails_reply_hello ''Hola'' ''15550001'' ''demo'' 0 empty_world)
       = Some ''Hello!''
   \<and> fst (generate_response detect_fails_reply_hello ''Hola'' ''15550001'' ''demo'' 0 empty_world)
       \<noteq> Some apology"
  by code_simp

text \<open>
  Claim C8 (core totality), as the code has it. Whatever the capabilities do,
  \<open>generate_response\<close> ends in a value and not in an exception: the apology when the
  first read raises, when the reply call raises, or when the read or the write of
  \<open>update_context\<close> raises, and otherwise the content of the reply as it came. A raise of
  the detection call is not among the cases of the apology: when the request has to
  detect the language, because the session read has no language or no history, such
  a raise only makes \<open>en\<close> the language of the request.
\<close>

theorem generate_response_outcome:
  "fst (generate_response cp m p bid now w) =
     (if fault_at (faults w) 0 then Some apology
      else case model_api cp (request_prompt cp m p bid now w) of
             Raises \<Rightarrow> Some apology
           | Content r \<Rightarrow>
               if fault_at (faults w) 1 \<or> fault_at (faults w) 2 then Some apology else r)
   \<and> (detect_api cp m = None \<longrightarrow>
        \<not> truthy (language (current_context w p now)) \<or> messages (current_context w p now) = [] \<longrightarrow>
        request_language cp m p now w = ''en'')"
proof -
  have "request_language cp m p now w = ''en''"
    if "detect_api cp m = None"
      and "\<not> truthy (language (current_context w p now)) \<or> messages (current_context w p now) = []"
    using that
    by (cases "language (current_context w p now)")
       (auto simp add: request_language_def resolve_language_def detect_language_def)
  then show ?thesis
    by (simp add: generate_response_fst generate_response_try_fst split: reply.splits)
qed

theorem generate_response_outcome_witness:
  "detect_api detect_fails_reply_hello ''Hola'' = None
   \<and> messages (current_context empty_world ''15550001'' 0) = []
   \<and> fst (generate_response detect_fails_reply_hello ''Hola'' ''15550001'' ''demo'' 0 empty_world) =
       Some ''Hello!''
   \<and> request_language detect_fails_reply_hello ''Hola'' ''15550001'' 0 empty_world = ''en''"
proof -
  have h1: "detect_api detect_fails_reply_hello ''Hola'' = None"
    by (simp add: detect_fails_reply_hello_def always_def)
  have h2: "messages (current_context empty_world ''15550001'' 0) = []"
    by (simp add: current_context_def empty_world_def default_context_def)
  have f: "\<not> fault_at (faults empty_world) i" for i
    by (simp add: fault_at_def empty_world_def)
  have r: "model_api detect_fails_reply_hello x = Content (Some ''Hello!'')" for x
    by (simp add: detect_fails_reply_hello_def always_def)
  from generate_response_outcome[of detect_fails_reply_hello "''Hola''" "''15550001''" "''demo''" 0 empty_world]
    h1 h2 show ?thesis
    by (simp add: f r)
qed

end
